theory Spec2Isabelle
  imports Complex_Main "HOL-Library.AList" "HOL-Library.Log_Nat"
begin

section \<open>Python values\<close>

text \<open>
  The adapters handle decoded JSON bodies and build dictionaries of \<open>Any\<close>.  A value is
  \<open>None\<close>, a bool, an int, a float, a str, a list, a dict with string keys, or a timezone
  aware \<open>datetime\<close>.  A dict is an association list read with \<open>map_of\<close>.  A finite float
  is carried as the rational it denotes (the non-finite floats are outside the model; the
  rounding of a float product is written out where a timestamp is converted, and left out
  of the backoff times); a datetime is carried as its number of microseconds since
  1970-01-01T00:00:00 UTC.
\<close>

datatype pyval =
    PNone
  | PBool bool
  | PInt int
  | PFloat rat
  | PStr string
  | PList "pyval list"
  | PDict "(string \<times> pyval) list"
  | PDatetime int

type_synonym pydict = "(string \<times> pyval) list"

section \<open>exceptions.py (not in the sources) and the other exceptions the code can raise\<close>

text \<open>
  \<open>APIError\<close> is built in \<open>_make_request\<close> either with the keywords \<open>message\<close>,
  \<open>status_code\<close>, \<open>response_text\<close> or with the message alone; the two arguments that are
  not given are absent.  Its class body is not in the sources, so \<open>str(e)\<close> is a parameter
  \<open>str_of\<close> of every adapter operation.  \<open>APIError\<close> is taken not to derive from
  \<open>httpx.RequestError\<close>.
\<close>

datatype APIError = APIError (err_message: string) (err_status_code: "int option")
  (err_response_text: "string option")

datatype exn =
    APIErr APIError
  | JSONDecodeError
  | AttributeError
  | KeyError
  | TypeError
  | IndexError
  | ValueError
  | OverflowError
  | OSError
  | ValidationError
  | OtherError string

section \<open>schemas.py\<close>

datatype AuthMethod = BASIC | BEARER | API_KEY

fun AuthMethod_value :: "AuthMethod \<Rightarrow> string" where
  "AuthMethod_value BASIC = ''Basic''"
| "AuthMethod_value BEARER = ''Bearer''"
| "AuthMethod_value API_KEY = ''ApiKey''"

fun AuthMethod_name :: "AuthMethod \<Rightarrow> string" where
  "AuthMethod_name BASIC = ''BASIC''"
| "AuthMethod_name BEARER = ''BEARER''"
| "AuthMethod_name API_KEY = ''API_KEY''"

text \<open>
  \<open>setup.py\<close> admits every Python from 3.10 on, and what an f-string makes of a member of
  a \<open>(str, Enum)\<close> class depends on the interpreter: Python 3.10 formats the member as its
  value (\<open>Bearer\<close>); from Python 3.11 on \<open>format\<close> gives what \<open>str\<close> gives, the class
  and member name (\<open>AuthMethod.BEARER\<close>).
\<close>

datatype interpreter = Python_3_10 | Python_3_11_up

fun AuthMethod_format :: "interpreter \<Rightarrow> AuthMethod \<Rightarrow> string" where
  "AuthMethod_format Python_3_10 m = AuthMethod_value m"
| "AuthMethod_format Python_3_11_up m = ''AuthMethod.'' @ AuthMethod_name m"

record APIResponse =
  success :: bool
  data :: "pydict option"
  error :: "string option"
  raw_response :: "pydict option"

datatype PaymentProviderType = PADDLE | RAZORPAY

datatype BillingCycle = DAILY | WEEKLY | MONTHLY | YEARLY

fun BillingCycle_value :: "BillingCycle \<Rightarrow> string" where
  "BillingCycle_value DAILY = ''day''"
| "BillingCycle_value WEEKLY = ''week''"
| "BillingCycle_value MONTHLY = ''month''"
| "BillingCycle_value YEARLY = ''year''"

text \<open>
  The pydantic constructor of \<open>APIResponse\<close>.  \<open>data\<close> and \<open>error\<close> are always given
  well-typed by the adapters; \<open>raw_response\<close> is whatever the request layer returned and is
  validated against \<open>Optional[Dict[str, Any]]\<close>: \<open>None\<close> stays absent, a dict is kept,
  any other value is refused.
\<close>

definition new_APIResponse ::
  "bool \<Rightarrow> pydict option \<Rightarrow> string option \<Rightarrow> pyval \<Rightarrow> exn + APIResponse" where
  "new_APIResponse ok d err raw =
     (case raw of
        PNone \<Rightarrow> Inr \<lparr>success = ok, data = d, error = err, raw_response = None\<rparr>
      | PDict kvs \<Rightarrow> Inr \<lparr>success = ok, data = d, error = err, raw_response = Some kvs\<rparr>
      | _ \<Rightarrow> Inl ValidationError)"

section \<open>base\_provider.py: BaseAPIClient\<close>

record client =
  base_url :: string
  api_secret :: string
  timeout :: rat
  headers :: "(string \<times> string) list"

text \<open>
  \<open>_build_headers\<close>, on the interpreter \<open>py\<close>; it reads \<open>self.api_secret\<close> and its
  argument only.
\<close>

definition build_headers :: "interpreter \<Rightarrow> string \<Rightarrow> AuthMethod \<Rightarrow> (string \<times> string) list" where
  "build_headers py secret auth_method =
     (let headers = [(''Content-Type'', ''application/json'')] in
      if auth_method = BASIC \<or> auth_method = BEARER
      then AList.update ''Authorization''
             (AuthMethod_format py auth_method @ '' '' @ secret) headers
      else if auth_method = API_KEY
      then AList.update ''X-Api-Key'' secret headers
      else headers)"

definition BaseAPIClient_init ::
  "interpreter \<Rightarrow> string \<Rightarrow> string \<Rightarrow> AuthMethod \<Rightarrow> rat \<Rightarrow> client" where
  "BaseAPIClient_init py url secret auth_method tmo =
     \<lparr>base_url = url, api_secret = secret, timeout = tmo,
      headers = build_headers py secret auth_method\<rparr>"

subsection \<open>The network and what is observed of a run\<close>

record request =
  req_method :: string
  req_url :: string
  req_headers :: "(string \<times> string) list"
  req_json :: "pyval option"
  req_params :: "pyval option"
  req_timeout :: rat

text \<open>
  A response carries its status code, its text and what \<open>response.json()\<close> gives
  (\<open>None\<close> when the body does not decode).
\<close>

record response =
  status_code :: int
  text_of :: string
  json_of :: "pyval option"

text \<open>
  One call of \<open>client.request\<close> answers with a response, raises an
  \<open>httpx.RequestError\<close> (with its \<open>str\<close>), or raises something else.
\<close>

datatype outcome = Response response | RequestError string | OtherException string

text \<open>
  The world is a function from the number of requests sent so far and the request to the
  outcome.  The state threaded through the code is the list of events so far: every request
  sent and every \<open>asyncio.sleep\<close>, in order.  Log records are not modelled.
\<close>

datatype event = Sent request | Slept rat

type_synonym network = "nat \<Rightarrow> request \<Rightarrow> outcome"

fun is_Sent :: "event \<Rightarrow> bool" where
  "is_Sent (Sent r) = True"
| "is_Sent (Slept t) = False"

definition sent_count :: "event list \<Rightarrow> nat" where
  "sent_count tr = length (filter is_Sent tr)"

subsection \<open>\_make\_request\<close>

text \<open>
  The request one attempt sends: \<open>client.request(method, url, headers=self.headers, json=json,
  params=params)\<close> on a client built with \<open>timeout=self.timeout\<close>.
\<close>

definition request_of ::
  "client \<Rightarrow> string \<Rightarrow> string \<Rightarrow> pyval option \<Rightarrow> pyval option \<Rightarrow> request" where
  "request_of self method url json params =
     \<lparr>req_method = method, req_url = url, req_headers = headers self,
      req_json = json, req_params = params, req_timeout = timeout self\<rparr>"

text \<open>
  The loop of \<open>_make_request\<close>, from the value of \<open>attempt\<close> at the loop test.  Falling
  out of the loop returns \<open>None\<close>.
\<close>

function make_request_loop ::
  "network \<Rightarrow> client \<Rightarrow> string \<Rightarrow> string \<Rightarrow> pyval option \<Rightarrow> pyval option \<Rightarrow> int \<Rightarrow> rat
     \<Rightarrow> int \<Rightarrow> event list \<Rightarrow> (exn + pyval) \<times> event list" where
  "make_request_loop net self method url json params retries backoff_factor attempt tr =
     (if attempt < retries then
        (let a = attempt + 1;
             req = request_of self method url json params;
             tr1 = tr @ [Sent req]
         in case net (sent_count tr) req of
              Response resp \<Rightarrow>
                if status_code resp = 200 \<or> status_code resp = 201 \<or> status_code resp = 202
                then (case json_of resp of
                        None \<Rightarrow> (Inl JSONDecodeError, tr1)
                      | Some v \<Rightarrow> (Inr v, tr1))
                else if a \<ge> retries
                then (Inl (APIErr (APIError ''API call failed after retries''
                                     (Some (status_code resp)) (Some (text_of resp)))), tr1)
                else make_request_loop net self method url json params retries backoff_factor a tr1
            | RequestError exc \<Rightarrow>
                if a < retries
                then make_request_loop net self method url json params retries backoff_factor a
                       (tr1 @ [Slept (backoff_factor * 2 ^ nat (a - 1))])
                else (Inl (APIErr (APIError (''Request error after retries: '' @ exc) None None)),
                      tr1)
            | OtherException x \<Rightarrow> (Inl (OtherError x), tr1))
      else (Inr PNone, tr))"
  by pat_completeness auto
termination
  by (relation "measure (\<lambda>(net, self, method, url, json, params, retries, bf, attempt, tr).
                           nat (retries - attempt))") auto

definition make_request ::
  "network \<Rightarrow> client \<Rightarrow> string \<Rightarrow> string \<Rightarrow> pyval option \<Rightarrow> pyval option \<Rightarrow> int \<Rightarrow> rat
     \<Rightarrow> event list \<Rightarrow> (exn + pyval) \<times> event list" where
  "make_request net self method endpoint json params retries backoff_factor tr =
     make_request_loop net self method (base_url self @ endpoint) json params retries
       backoff_factor 0 tr"

section \<open>Python operations the adapters use\<close>

text \<open>\<open>obj.get(key, default)\<close>: only a dict has the method.\<close>

definition py_get :: "pyval \<Rightarrow> string \<Rightarrow> pyval \<Rightarrow> exn + pyval" where
  "py_get obj k dflt =
     (case obj of
        PDict kvs \<Rightarrow> Inr (case map_of kvs k of None \<Rightarrow> dflt | Some v \<Rightarrow> v)
      | _ \<Rightarrow> Inl AttributeError)"

text \<open>\<open>obj.get(k1, {}).get(k2)\<close>.\<close>

definition py_get2 :: "pyval \<Rightarrow> string \<Rightarrow> string \<Rightarrow> exn + pyval" where
  "py_get2 obj k1 k2 =
     (case py_get obj k1 (PDict []) of
        Inl x \<Rightarrow> Inl x
      | Inr inner \<Rightarrow> py_get inner k2 PNone)"

text \<open>\<open>obj[key]\<close> with a string key.\<close>

definition py_getitem :: "pyval \<Rightarrow> string \<Rightarrow> exn + pyval" where
  "py_getitem obj k =
     (case obj of
        PDict kvs \<Rightarrow> (case map_of kvs k of None \<Rightarrow> Inl KeyError | Some v \<Rightarrow> Inr v)
      | _ \<Rightarrow> Inl TypeError)"

text \<open>\<open>obj[0]\<close>; a decoded dict has string keys only, so 0 is never one of them.\<close>

definition py_index0 :: "pyval \<Rightarrow> exn + pyval" where
  "py_index0 obj =
     (case obj of
        PList xs \<Rightarrow> (case xs of [] \<Rightarrow> Inl IndexError | x # _ \<Rightarrow> Inr x)
      | PStr cs \<Rightarrow> (case cs of [] \<Rightarrow> Inl IndexError | c # _ \<Rightarrow> Inr (PStr [c]))
      | PDict kvs \<Rightarrow> Inl KeyError
      | _ \<Rightarrow> Inl TypeError)"

fun truthy :: "pyval \<Rightarrow> bool" where
  "truthy PNone = False"
| "truthy (PBool b) = b"
| "truthy (PInt n) = (n \<noteq> 0)"
| "truthy (PFloat r) = (r \<noteq> 0)"
| "truthy (PStr cs) = (cs \<noteq> [])"
| "truthy (PList xs) = (xs \<noteq> [])"
| "truthy (PDict kvs) = (kvs \<noteq> [])"
| "truthy (PDatetime t) = True"

text \<open>\<open>a or b\<close> on an optional string.\<close>

definition str_or :: "string option \<Rightarrow> string \<Rightarrow> string" where
  "str_or a b = (case a of None \<Rightarrow> b | Some x \<Rightarrow> if x = [] then b else x)"

text \<open>
  \<open>str.lower()\<close>, on strings whose characters are the code points 0 to 255: the ASCII
  capitals and the Latin-1 capitals move up by 32.
\<close>

definition lower_char :: "char \<Rightarrow> char" where
  "lower_char c =
     (let n = (of_char c :: nat) in
      if (65 \<le> n \<and> n \<le> 90) \<or> (192 \<le> n \<and> n \<le> 222 \<and> n \<noteq> 215)
      then char_of (n + 32) else c)"

definition lower :: "string \<Rightarrow> string" where
  "lower s = map lower_char s"

text \<open>
  \<open>datetime.fromtimestamp(x, tz=timezone.utc)\<close> as CPython computes it on a platform with
  a 64-bit \<open>time_t\<close> and glibc.  The argument is split into whole seconds and microseconds:
  an int (a bool is one) is a number of seconds; a float is cut into its integral and
  fractional part, the fractional part times \<open>1e6\<close> is rounded to a double and then
  half-even to an integer, and a carry or borrow moves into the seconds.  Anything else is a
  \<open>TypeError\<close>.  Seconds outside \<open>time_t\<close> raise \<open>OverflowError\<close>, seconds for which
  \<open>gmtime\<close> fails (the year does not fit an \<open>int\<close>) raise \<open>OSError\<close>, and a year outside
  1 to 9999 raises \<open>ValueError\<close>.
\<close>

definition round_half_even :: "rat \<Rightarrow> int" where
  "round_half_even r =
     (let f = \<lfloor>r\<rfloor>; d = r - of_int f in
      if d < 1 / 2 then f else if 1 / 2 < d then f + 1 else if even f then f else f + 1)"

definition two_pow :: "int \<Rightarrow> rat" where
  "two_pow k = (if 0 \<le> k then 2 ^ nat k else 1 / 2 ^ nat (- k))"

text \<open>The exponent of a positive rational: the \<open>e\<close> with \<open>2 ^ e \<le> x < 2 ^ (e + 1)\<close>.\<close>

definition floor_log2 :: "rat \<Rightarrow> int" where
  "floor_log2 x =
     (case quotient_of x of (a, b) \<Rightarrow>
        let n = bitlen a - bitlen b in if two_pow n \<le> x then n else n - 1)"

text \<open>
  Rounding to the nearest double, ties to even, with the 53-bit significand (the products
  rounded here lie below \<open>1e6\<close> in magnitude, and one that would be subnormal rounds to zero
  microseconds either way, so the exponent range plays no part).
\<close>

definition round_to_double :: "rat \<Rightarrow> rat" where
  "round_to_double x =
     (if x = 0 then 0
      else let u = two_pow (floor_log2 \<bar>x\<bar> - 52) in of_int (round_half_even (x / u)) * u)"

text \<open>The integral part of \<open>modf\<close>: rounding towards zero.\<close>

definition trunc_rat :: "rat \<Rightarrow> int" where
  "trunc_rat x = (if 0 \<le> x then \<lfloor>x\<rfloor> else - \<lfloor>- x\<rfloor>)"

definition datetime_from_timet_and_us :: "int \<Rightarrow> int \<Rightarrow> exn + pyval" where
  "datetime_from_timet_and_us timet us =
     (if \<not> (- (2 ^ 63) \<le> timet \<and> timet < 2 ^ 63) then Inl OverflowError
      else if \<not> (- 67768040609740800 \<le> timet \<and> timet \<le> 67768036191676799) then Inl OSError
      else if \<not> (- 62135596800 \<le> timet \<and> timet \<le> 253402300799) then Inl ValueError
      else Inr (PDatetime (timet * 1000000 + us)))"

definition fromtimestamp :: "pyval \<Rightarrow> exn + pyval" where
  "fromtimestamp x =
     (case x of
        PInt n \<Rightarrow> datetime_from_timet_and_us n 0
      | PBool b \<Rightarrow> datetime_from_timet_and_us (if b then 1 else 0) 0
      | PFloat d \<Rightarrow>
          (let intpart = trunc_rat d;
               floatpart = round_half_even (round_to_double ((d - of_int intpart) * 1000000))
           in if 1000000 \<le> floatpart
              then datetime_from_timet_and_us (intpart + 1) (floatpart - 1000000)
              else if floatpart < 0
              then datetime_from_timet_and_us (intpart - 1) (floatpart + 1000000)
              else datetime_from_timet_and_us intpart floatpart)
      | _ \<Rightarrow> Inl TypeError)"

section \<open>Programs with state and exceptions\<close>

type_synonym ('a, 'st) prog = "'st \<Rightarrow> (exn + 'a) \<times> 'st"

text \<open>Sequencing: an exception of the first part skips the rest.\<close>

definition bindSE :: "('a, 'st) prog \<Rightarrow> ('a \<Rightarrow> ('b, 'st) prog) \<Rightarrow> ('b, 'st) prog" where
  "bindSE m f s = (case m s of (Inl x, s') \<Rightarrow> (Inl x, s') | (Inr v, s') \<Rightarrow> f v s')"

text \<open>A computation that touches no state.\<close>

definition pureSE :: "exn + 'a \<Rightarrow> ('a, 'st) prog" where
  "pureSE r s = (r, s)"

text \<open>
  \<open>try: body  except APIError as e: return APIResponse(success=False, error=str(e))\<close>,
  the frame around the body of every adapter operation.
\<close>

definition except_APIError ::
  "(APIError \<Rightarrow> string) \<Rightarrow> (APIResponse, 'st) prog \<Rightarrow> (APIResponse, 'st) prog" where
  "except_APIError str_of body s =
     (case body s of
        (Inl (APIErr e), s') \<Rightarrow> (new_APIResponse False None (Some (str_of e)) PNone, s')
      | (Inl x, s') \<Rightarrow> (Inl x, s')
      | (Inr r, s') \<Rightarrow> (Inr r, s'))"

text \<open>
  The adapters reach the request layer only through \<open>self._make_request(method, endpoint,
  json)\<close>, with the default retry policy.  The operations below take that method as the
  parameter \<open>mr\<close>; \<open>invoke\<close> is the method \<open>BaseAPIClient\<close> provides.
\<close>

type_synonym 'st request_layer = "string \<Rightarrow> string \<Rightarrow> pyval option \<Rightarrow> (pyval, 'st) prog"

definition invoke :: "network \<Rightarrow> client \<Rightarrow> event list request_layer" where
  "invoke net self method endpoint json = make_request net self method endpoint json None 3 (3 / 2)"

text \<open>
  \<open>PlanSchema\<close> and \<open>UserData\<close> are not in the sources; their fields are typed as the
  adapters use them (\<open>id'\<close> is the attribute \<open>id\<close>, already a string, so that \<open>str\<close>
  leaves it as it is; \<open>amount\<close> is an int, so that \<open>int\<close> leaves it as it is).
\<close>

record PlanSchema =
  id' :: string
  psp_price_id :: string
  name :: string
  description :: "string option"
  amount :: int
  currency :: "string option"
  billing_cycle :: string

record UserData =
  email :: string
  firstName :: string
  lastName :: string

text \<open>Sequencing of computations that can only raise.\<close>

definition bindE :: "exn + 'a \<Rightarrow> ('a \<Rightarrow> exn + 'b) \<Rightarrow> exn + 'b" where
  "bindE m f = (case m of Inl x \<Rightarrow> Inl x | Inr v \<Rightarrow> f v)"

text \<open>\<open>customer_response.data\<close> as a value: an absent \<open>data\<close> is \<open>None\<close>.\<close>

definition opt_dict :: "pydict option \<Rightarrow> pyval" where
  "opt_dict d = (case d of None \<Rightarrow> PNone | Some kvs \<Rightarrow> PDict kvs)"

section \<open>paddle.py\<close>

text \<open>\<open>loaded_config\<close> is not in the sources: its two values are parameters.\<close>

definition PaddleClient_init ::
  "interpreter \<Rightarrow> string \<Rightarrow> string \<Rightarrow> rat \<Rightarrow> string option \<Rightarrow> client" where
  "PaddleClient_init py paddle_api_base_url paddle_api_secret tmo secret =
     BaseAPIClient_init py paddle_api_base_url (str_or secret paddle_api_secret) BEARER tmo"

definition paddle_map_billing_cycle :: "string \<Rightarrow> string" where
  "paddle_map_billing_cycle cycle =
     (let mapping = [(''daily'', ''day''), (''weekly'', ''week''), (''monthly'', ''month''),
                     (''yearly'', ''year'')]
      in case map_of mapping (lower cycle) of None \<Rightarrow> ''month'' | Some v \<Rightarrow> v)"

definition paddle_create_transaction ::
  "(APIError \<Rightarrow> string) \<Rightarrow> 'st request_layer \<Rightarrow> PlanSchema \<Rightarrow> string \<Rightarrow> UserData
     \<Rightarrow> (APIResponse, 'st) prog" where
  "paddle_create_transaction str_of mr plan_details subscription_id user_data =
     except_APIError str_of
       (let body = PDict
              [(''items'', PList [PDict [(''price_id'', PStr (psp_price_id plan_details)),
                                         (''quantity'', PInt 1)]]),
               (''customer'', PDict [(''email'', PStr (email user_data))]),
               (''custom_data'', PDict [(''plan_id'', PStr (id' plan_details)),
                                        (''subscription_id'', PStr subscription_id)])]
        in bindSE (mr ''POST'' ''/transactions'' (Some body)) (\<lambda>response.
             pureSE
               (bindE (py_get2 response ''data'' ''id'') (\<lambda>transaction_id.
                bindE (py_get2 response ''data'' ''checkout_url'') (\<lambda>checkout_url.
                new_APIResponse True
                  (Some [(''transaction_id'', transaction_id), (''checkout_url'', checkout_url)])
                  None response)))))"

definition paddle_create_plan ::
  "(APIError \<Rightarrow> string) \<Rightarrow> 'st request_layer \<Rightarrow> PlanSchema \<Rightarrow> (APIResponse, 'st) prog" where
  "paddle_create_plan str_of mr plan_details =
     except_APIError str_of
       (let product_payload = PDict
              [(''name'', PStr (name plan_details)),
               (''tax_category'', PStr ''digital-goods''),
               (''description'', PStr (str_or (description plan_details) (name plan_details)))]
        in bindSE (mr ''POST'' ''/products'' (Some product_payload)) (\<lambda>product.
           bindSE (pureSE (bindE (py_getitem product ''data'') (\<lambda>d. py_getitem d ''id'')))
             (\<lambda>product_id.
           let price_payload = PDict
              [(''name'', PStr (name plan_details)),
               (''product_id'', product_id),
               (''description'', PStr (str_or (description plan_details) (name plan_details))),
               (''unit_price'', PDict
                   [(''amount'', PInt (amount plan_details)),
                    (''currency_code'', PStr (str_or (currency plan_details) ''USD''))]),
               (''billing_cycle'', PDict
                   [(''interval'', PStr (paddle_map_billing_cycle (billing_cycle plan_details))),
                    (''frequency'', PInt 1)]),
               (''tax_mode'', PStr ''account_setting''),
               (''quantity'', PDict [(''minimum'', PInt 1), (''maximum'', PInt 1)])]
           in bindSE (mr ''POST'' ''/prices'' (Some price_payload)) (\<lambda>price.
              pureSE
                (bindE (bindE (py_getitem product ''data'') (\<lambda>d. py_getitem d ''id''))
                   (\<lambda>product_id2.
                 bindE (bindE (py_getitem price ''data'') (\<lambda>d. py_getitem d ''id''))
                   (\<lambda>price_id.
                 new_APIResponse True
                   (Some [(''product_id'', product_id2), (''price_id'', price_id)])
                   None (PDict [(''product'', product), (''price'', price)]))))))))"

definition paddle_get_transaction_invoice ::
  "(APIError \<Rightarrow> string) \<Rightarrow> 'st request_layer \<Rightarrow> string \<Rightarrow> (APIResponse, 'st) prog" where
  "paddle_get_transaction_invoice str_of mr transaction_id =
     except_APIError str_of
       (bindSE (mr ''GET'' (''/transactions/'' @ transaction_id @ ''/invoice'') None)
          (\<lambda>response.
             pureSE
               (bindE (py_get2 response ''data'' ''invoice_url'') (\<lambda>invoice_url.
                bindE (py_get2 response ''data'' ''id'') (\<lambda>invoice_id.
                new_APIResponse True
                  (Some [(''invoice_url'', invoice_url), (''invoice_id'', invoice_id)])
                  None response)))))"

definition paddle_normalize_subscription_details :: "pyval \<Rightarrow> exn + pydict" where
  "paddle_normalize_subscription_details subscription_data =
     bindE (py_get subscription_data ''id'' PNone) (\<lambda>v_id.
     bindE (py_get subscription_data ''status'' PNone) (\<lambda>v_status.
     bindE (py_get subscription_data ''created_at'' PNone) (\<lambda>v_created_at.
     bindE (py_get subscription_data ''next_billed_at'' PNone) (\<lambda>v_next.
     bindE (bindE (py_get subscription_data ''items'' PNone) (\<lambda>items.
              if truthy items
              then bindE (py_get subscription_data ''items'' (PList [PDict []])) (\<lambda>items2.
                   bindE (py_index0 items2) (\<lambda>first. py_get first ''price_id'' PNone))
              else Inr PNone)) (\<lambda>v_plan_id.
     bindE (py_get subscription_data ''customer_id'' PNone) (\<lambda>v_customer_id.
     Inr [(''id'', v_id), (''status'', v_status), (''created_at'', v_created_at),
          (''next_billing_date'', v_next), (''plan_id'', v_plan_id),
          (''customer_id'', v_customer_id)]))))))"

definition paddle_get_subscription_details ::
  "(APIError \<Rightarrow> string) \<Rightarrow> 'st request_layer \<Rightarrow> string \<Rightarrow> (APIResponse, 'st) prog" where
  "paddle_get_subscription_details str_of mr subscription_id =
     except_APIError str_of
       (bindSE (mr ''GET'' (''/subscriptions/'' @ subscription_id) None) (\<lambda>response.
          pureSE
            (bindE (py_get response ''data'' (PDict [])) (\<lambda>subscription_data.
             bindE (paddle_normalize_subscription_details subscription_data) (\<lambda>d.
             new_APIResponse True (Some d) None response)))))"

definition paddle_end_subscription ::
  "(APIError \<Rightarrow> string) \<Rightarrow> 'st request_layer \<Rightarrow> string \<Rightarrow> (APIResponse, 'st) prog" where
  "paddle_end_subscription str_of mr subscription_id =
     except_APIError str_of
       (let payload = PDict [(''effective_from'', PStr ''next_billing_period'')]
        in bindSE (mr ''POST'' (''/subscriptions/'' @ subscription_id @ ''/cancel'') (Some payload))
             (\<lambda>response.
                pureSE
                  (new_APIResponse True
                     (Some [(''subscription_id'', PStr subscription_id),
                            (''status'', PStr ''cancelled'')])
                     None response)))"

definition paddle_create_customer ::
  "(APIError \<Rightarrow> string) \<Rightarrow> 'st request_layer \<Rightarrow> UserData \<Rightarrow> (APIResponse, 'st) prog" where
  "paddle_create_customer str_of mr user_data =
     except_APIError str_of
       (let customer_payload = PDict
              [(''email'', PStr (email user_data)),
               (''name'', PStr (firstName user_data @ '' '' @ lastName user_data))]
        in bindSE (mr ''POST'' ''/customers'' (Some customer_payload)) (\<lambda>response.
             pureSE
               (bindE (py_get2 response ''data'' ''id'') (\<lambda>customer_id.
                new_APIResponse True (Some [(''customer_id'', customer_id)]) None response))))"

section \<open>razorpay.py\<close>

definition RazorpayClient_init ::
  "interpreter \<Rightarrow> string \<Rightarrow> string \<Rightarrow> rat \<Rightarrow> string option \<Rightarrow> client" where
  "RazorpayClient_init py razorpay_api_base_url razorpay_api_secret tmo secret =
     BaseAPIClient_init py razorpay_api_base_url (str_or secret razorpay_api_secret) BASIC tmo"

definition razorpay_map_billing_cycle :: "string \<Rightarrow> string" where
  "razorpay_map_billing_cycle cycle =
     (let mapping = [(''daily'', ''daily''), (''weekly'', ''weekly''), (''monthly'', ''monthly''),
                     (''yearly'', ''yearly'')]
      in case map_of mapping (lower cycle) of None \<Rightarrow> ''monthly'' | Some v \<Rightarrow> v)"

definition razorpay_create_customer ::
  "(APIError \<Rightarrow> string) \<Rightarrow> 'st request_layer \<Rightarrow> UserData \<Rightarrow> (APIResponse, 'st) prog" where
  "razorpay_create_customer str_of mr user_data =
     except_APIError str_of
       (let customer_payload = PDict
              [(''name'', PStr (firstName user_data @ '' '' @ lastName user_data)),
               (''email'', PStr (email user_data)),
               (''fail_existing'', PInt 0)]
        in bindSE (mr ''POST'' ''/customers'' (Some customer_payload)) (\<lambda>response.
             pureSE
               (bindE (py_get response ''id'' PNone) (\<lambda>customer_id.
                new_APIResponse True (Some [(''customer_id'', customer_id)]) None response))))"

definition razorpay_create_transaction ::
  "(APIError \<Rightarrow> string) \<Rightarrow> 'st request_layer \<Rightarrow> PlanSchema \<Rightarrow> string \<Rightarrow> UserData
     \<Rightarrow> (APIResponse, 'st) prog" where
  "razorpay_create_transaction str_of mr plan_details subscription_id user_data =
     except_APIError str_of
       (bindSE (razorpay_create_customer str_of mr user_data) (\<lambda>customer_response.
          if \<not> success customer_response then pureSE (Inr customer_response)
          else
            bindSE (pureSE (py_get (opt_dict (data customer_response)) ''customer_id'' PNone))
              (\<lambda>customer_id.
            let subscription_payload = PDict
                  [(''plan_id'', PStr (psp_price_id plan_details)),
                   (''total_count'', PInt 100),
                   (''quantity'', PInt 1),
                   (''customer_notify'', PInt 1),
                   (''customer_id'', customer_id),
                   (''notes'', PDict [(''internal_subscription_id'', PStr subscription_id),
                                      (''plan_id'', PStr (id' plan_details))])]
            in bindSE (mr ''POST'' ''/subscriptions'' (Some subscription_payload)) (\<lambda>response.
                 pureSE
                   (bindE (py_get response ''id'' PNone) (\<lambda>razorpay_subscription_id.
                    bindE (py_get response ''invoice_id'' PNone) (\<lambda>invoice_id.
                    bindE (py_get response ''short_url'' PNone) (\<lambda>checkout_url.
                    new_APIResponse True
                      (Some [(''subscription_id'', razorpay_subscription_id),
                             (''invoice_id'', invoice_id),
                             (''checkout_url'', checkout_url)])
                      None response))))))))"

definition razorpay_create_plan ::
  "(APIError \<Rightarrow> string) \<Rightarrow> 'st request_layer \<Rightarrow> PlanSchema \<Rightarrow> (APIResponse, 'st) prog" where
  "razorpay_create_plan str_of mr plan_details =
     except_APIError str_of
       (let body = PDict
              [(''period'', PStr (razorpay_map_billing_cycle (billing_cycle plan_details))),
               (''interval'', PInt 1),
               (''item'', PDict
                   [(''name'', PStr (name plan_details)),
                    (''amount'', PInt (amount plan_details)),
                    (''currency'', PStr (str_or (currency plan_details) ''USD'')),
                    (''description'',
                       PStr (str_or (description plan_details) (name plan_details)))])]
        in bindSE (mr ''POST'' ''/plans'' (Some body)) (\<lambda>response.
             pureSE
               (bindE (py_get response ''id'' PNone) (\<lambda>plan_id.
                new_APIResponse True (Some [(''plan_id'', plan_id)]) None response))))"

definition razorpay_get_transaction_invoice ::
  "(APIError \<Rightarrow> string) \<Rightarrow> 'st request_layer \<Rightarrow> string \<Rightarrow> (APIResponse, 'st) prog" where
  "razorpay_get_transaction_invoice str_of mr invoice_id =
     except_APIError str_of
       (bindSE (mr ''GET'' (''/invoices/'' @ invoice_id) None) (\<lambda>response.
          pureSE
            (bindE (py_get response ''short_url'' PNone) (\<lambda>invoice_url.
             bindE (py_get response ''id'' PNone) (\<lambda>v_id.
             bindE (py_get response ''status'' PNone) (\<lambda>v_status.
             new_APIResponse True
               (Some [(''invoice_url'', invoice_url), (''invoice_id'', v_id),
                      (''status'', v_status)])
               None response))))))"

definition razorpay_issue_invoice ::
  "(APIError \<Rightarrow> string) \<Rightarrow> 'st request_layer \<Rightarrow> string \<Rightarrow> (APIResponse, 'st) prog" where
  "razorpay_issue_invoice str_of mr invoice_id =
     except_APIError str_of
       (bindSE (mr ''POST'' (''/invoices/'' @ invoice_id @ ''/issue'') None) (\<lambda>response.
          pureSE
            (bindE (py_get response ''id'' PNone) (\<lambda>v_id.
             bindE (py_get response ''status'' PNone) (\<lambda>v_status.
             new_APIResponse True (Some [(''invoice_id'', v_id), (''status'', v_status)])
               None response)))))"

text \<open>
  \<open>DateHelper\<close> is not in the sources: the two epochs it computes from the clock are the
  parameters \<open>date\<close> and \<open>expire_by\<close>.
\<close>

definition razorpay_draft_invoice ::
  "(APIError \<Rightarrow> string) \<Rightarrow> 'st request_layer \<Rightarrow> pyval \<Rightarrow> pyval \<Rightarrow> string \<Rightarrow> string \<Rightarrow> int
     \<Rightarrow> string \<Rightarrow> string \<Rightarrow> (APIResponse, 'st) prog" where
  "razorpay_draft_invoice str_of mr date expire_by customer_id plan_name plan_amount
       plan_currency plan_description =
     except_APIError str_of
       (let body = PDict
              [(''type'', PStr ''invoice''),
               (''date'', date),
               (''customer_id'', PStr customer_id),
               (''line_items'', PList [PDict
                   [(''name'', PStr plan_name),
                    (''description'', PStr plan_description),
                    (''amount'', PInt plan_amount),
                    (''currency'', PStr plan_currency)]]),
               (''expire_by'', expire_by),
               (''draft'', PInt 1)]
        in bindSE (mr ''POST'' ''/invoices'' (Some body)) (\<lambda>response.
             pureSE
               (bindE (py_get response ''id'' PNone) (\<lambda>v_id.
                bindE (py_get response ''status'' PNone) (\<lambda>v_status.
                new_APIResponse True (Some [(''invoice_id'', v_id), (''status'', v_status)])
                  None response)))))"

definition razorpay_normalize_subscription_details :: "pyval \<Rightarrow> exn + pydict" where
  "razorpay_normalize_subscription_details subscription_data =
     bindE (py_get subscription_data ''id'' PNone) (\<lambda>v_id.
     bindE (py_get subscription_data ''status'' PNone) (\<lambda>v_status.
     bindE (bindE (py_get subscription_data ''created_at'' (PInt 0)) fromtimestamp)
       (\<lambda>v_created_at.
     bindE (bindE (py_get subscription_data ''current_end'' (PInt 0)) fromtimestamp)
       (\<lambda>v_next.
     bindE (py_get subscription_data ''plan_id'' PNone) (\<lambda>v_plan_id.
     bindE (py_get subscription_data ''customer_id'' PNone) (\<lambda>v_customer_id.
     Inr [(''id'', v_id), (''status'', v_status), (''created_at'', v_created_at),
          (''next_billing_date'', v_next), (''plan_id'', v_plan_id),
          (''customer_id'', v_customer_id)]))))))"

definition razorpay_get_subscription_details ::
  "(APIError \<Rightarrow> string) \<Rightarrow> 'st request_layer \<Rightarrow> string \<Rightarrow> (APIResponse, 'st) prog" where
  "razorpay_get_subscription_details str_of mr subscription_id =
     except_APIError str_of
       (bindSE (mr ''GET'' (''/subscriptions/'' @ subscription_id) None) (\<lambda>response.
          pureSE
            (bindE (razorpay_normalize_subscription_details response) (\<lambda>d.
             new_APIResponse True (Some d) None response))))"

definition razorpay_end_subscription ::
  "(APIError \<Rightarrow> string) \<Rightarrow> 'st request_layer \<Rightarrow> string \<Rightarrow> (APIResponse, 'st) prog" where
  "razorpay_end_subscription str_of mr subscription_id =
     except_APIError str_of
       (let body = PDict [(''cancel_at_cycle_end'', PBool True)]
        in bindSE (mr ''POST'' (''/subscriptions/'' @ subscription_id @ ''/cancel'') (Some body))
             (\<lambda>response.
                pureSE
                  (bindE (py_get response ''status'' PNone) (\<lambda>v_status.
                   new_APIResponse True
                     (Some [(''subscription_id'', PStr subscription_id), (''status'', v_status)])
                     None response))))"

definition razorpay_get_payment_downtimes ::
  "(APIError \<Rightarrow> string) \<Rightarrow> 'st request_layer \<Rightarrow> (APIResponse, 'st) prog" where
  "razorpay_get_payment_downtimes str_of mr =
     except_APIError str_of
       (bindSE (mr ''GET'' ''/payments/downtimes'' None) (\<lambda>response.
          pureSE
            (bindE (py_get response ''items'' (PList [])) (\<lambda>items.
             new_APIResponse True (Some [(''downtimes'', items)]) None response))))"

section \<open>The operations of an adapter, by provider\<close>

text \<open>
  The six operations of \<open>PaymentProvider\<close>, and the three more that \<open>RazorpayClient\<close>
  defines.  \<open>PaddleClient\<close> has no attribute for these three: looking one up raises
  \<open>AttributeError\<close>.
\<close>

datatype operation =
    CreateTransaction PlanSchema string UserData
  | CreatePlan PlanSchema
  | GetTransactionInvoice string
  | GetSubscriptionDetails string
  | EndSubscription string
  | CreateCustomer UserData
  | IssueInvoice string
  | DraftInvoice pyval pyval string string int string string
  | GetPaymentDowntimes

fun call ::
  "(APIError \<Rightarrow> string) \<Rightarrow> 'st request_layer \<Rightarrow> PaymentProviderType \<Rightarrow> operation
     \<Rightarrow> (APIResponse, 'st) prog" where
  "call str_of mr PADDLE (CreateTransaction p sid u) = paddle_create_transaction str_of mr p sid u"
| "call str_of mr PADDLE (CreatePlan p) = paddle_create_plan str_of mr p"
| "call str_of mr PADDLE (GetTransactionInvoice t) = paddle_get_transaction_invoice str_of mr t"
| "call str_of mr PADDLE (GetSubscriptionDetails sid) =
     paddle_get_subscription_details str_of mr sid"
| "call str_of mr PADDLE (EndSubscription sid) = paddle_end_subscription str_of mr sid"
| "call str_of mr PADDLE (CreateCustomer u) = paddle_create_customer str_of mr u"
| "call str_of mr PADDLE (IssueInvoice i) = pureSE (Inl AttributeError)"
| "call str_of mr PADDLE (DraftInvoice d e c n a cu de) = pureSE (Inl AttributeError)"
| "call str_of mr PADDLE GetPaymentDowntimes = pureSE (Inl AttributeError)"
| "call str_of mr RAZORPAY (CreateTransaction p sid u) =
     razorpay_create_transaction str_of mr p sid u"
| "call str_of mr RAZORPAY (CreatePlan p) = razorpay_create_plan str_of mr p"
| "call str_of mr RAZORPAY (GetTransactionInvoice t) =
     razorpay_get_transaction_invoice str_of mr t"
| "call str_of mr RAZORPAY (GetSubscriptionDetails sid) =
     razorpay_get_subscription_details str_of mr sid"
| "call str_of mr RAZORPAY (EndSubscription sid) = razorpay_end_subscription str_of mr sid"
| "call str_of mr RAZORPAY (CreateCustomer u) = razorpay_create_customer str_of mr u"
| "call str_of mr RAZORPAY (IssueInvoice i) = razorpay_issue_invoice str_of mr i"
| "call str_of mr RAZORPAY (DraftInvoice d e c n a cu de) =
     razorpay_draft_invoice str_of mr d e c n a cu de"
| "call str_of mr RAZORPAY GetPaymentDowntimes = razorpay_get_payment_downtimes str_of mr"

text \<open>
  An observer of the request layer: \<open>recording mr\<close> behaves as \<open>mr\<close> and appends what each
  call returned or raised to a list kept beside the state.
\<close>

definition recording :: "'st request_layer \<Rightarrow> ('st \<times> (exn + pyval) list) request_layer" where
  "recording mr method endpoint json s =
     (case mr method endpoint json (fst s) of
        (r, s') \<Rightarrow> (r, (s', snd s @ [r])))"

section \<open>Notions used to state the properties\<close>

text \<open>The success set of HTTP statuses.\<close>

definition success_status :: "int \<Rightarrow> bool" where
  "success_status c = (c \<in> {200, 201, 202})"

text \<open>
  An attempt failed when it was answered with a status outside the success set
  (an HTTP-status failure) or raised \<open>httpx.RequestError\<close> (a transport-level failure).
\<close>

fun attempt_failed :: "outcome \<Rightarrow> bool" where
  "attempt_failed (Response resp) = (\<not> success_status (status_code resp))"
| "attempt_failed (RequestError exc) = True"
| "attempt_failed (OtherException x) = False"

text \<open>
  The sleeps expected between failed attempt number \<open>i\<close> (counted from 1) and the next
  attempt: one of \<open>backoff_factor * 2 ^ (i - 1)\<close> seconds after a transport-level failure,
  none after an HTTP-status failure.
\<close>

fun sleep_after :: "rat \<Rightarrow> nat \<Rightarrow> outcome \<Rightarrow> event list" where
  "sleep_after bf i (RequestError exc) = [Slept (bf * 2 ^ (i - 1))]"
| "sleep_after bf i (Response resp) = []"
| "sleep_after bf i (OtherException x) = []"

text \<open>The error surfaced when the last allowed attempt had the given failed outcome.\<close>

fun exhausted_error :: "outcome \<Rightarrow> APIError" where
  "exhausted_error (Response resp) =
     APIError ''API call failed after retries'' (Some (status_code resp)) (Some (text_of resp))"
| "exhausted_error (RequestError exc) =
     APIError (''Request error after retries: '' @ exc) None None"

text \<open>The keys of both adapters' billing-cycle tables.\<close>

definition cycle_table_keys :: "string list" where
  "cycle_table_keys = [''daily'', ''weekly'', ''monthly'', ''yearly'']"

subsection \<open>Concrete clients and networks\<close>

definition demo_client :: client where
  "demo_client = BaseAPIClient_init Python_3_11_up ''https://api.example'' ''abc'' BEARER 30"

definition ok_response :: response where
  "ok_response = \<lparr>status_code = 200, text_of = ''{}'', json_of = Some (PDict [])\<rparr>"

definition err_response :: response where
  "err_response = \<lparr>status_code = 500, text_of = ''down'', json_of = None\<rparr>"

text \<open>Refused, then status 500, then timed out, then status 200.\<close>

definition flaky_net :: network where
  "flaky_net n req =
     (if n = 0 then RequestError ''refused''
      else if n = 1 then Response err_response
      else if n = 2 then RequestError ''timed out''
      else Response ok_response)"

text \<open>Never a success: status 500 and a refused connection in turn.\<close>

definition down_net :: network where
  "down_net n req = (if even n then Response err_response else RequestError ''refused'')"

definition demo_user :: UserData where
  "demo_user = \<lparr>email = ''a@b.com'', firstName = ''A'', lastName = ''B''\<rparr>"

definition demo_plan :: PlanSchema where
  "demo_plan = \<lparr>id' = ''7'', psp_price_id = ''pri_1'', name = ''Pro'', description = None,
                 amount = 1000, currency = None, billing_cycle = ''yearly''\<rparr>"

text \<open>Every request is answered with status 422 and the JSON body \<open>{}\<close>.\<close>

definition rejecting_net :: network where
  "rejecting_net n req =
     Response \<lparr>status_code = 422, text_of = ''{}'', json_of = Some (PDict [])\<rparr>"

text \<open>Every request is answered with status 201 and a body that holds an \<open>id\<close>.\<close>

definition accepting_net :: network where
  "accepting_net n req =
     Response \<lparr>status_code = 201, text_of = ''{}'',
               json_of = Some (PDict [(''id'', PStr ''cust_1'')])\<rparr>"

text \<open>Every request is answered with status 200 and a body in Paddle's envelope.\<close>

definition paddle_net :: network where
  "paddle_net n req =
     Response \<lparr>status_code = 200, text_of = ''{}'',
               json_of = Some (PDict [(''data'', PDict [(''id'', PStr ''obj_1'')])])\<rparr>"

subsection \<open>Responses and payloads\<close>

text \<open>
  The shape of a response: \<open>success\<close> is false exactly when \<open>error\<close> is populated and
  \<open>data\<close> is absent, and true exactly when \<open>data\<close> is present and \<open>error\<close> is absent.
\<close>

definition well_formed :: "APIResponse \<Rightarrow> bool" where
  "well_formed r =
     ((\<not> success r \<longleftrightarrow> error r \<noteq> None \<and> data r = None) \<and>
      (success r \<longleftrightarrow> data r \<noteq> None \<and> error r = None))"

text \<open>The response of the \<open>except APIError\<close> branch.\<close>

definition api_failure :: "(APIError \<Rightarrow> string) \<Rightarrow> APIError \<Rightarrow> APIResponse" where
  "api_failure str_of e =
     \<lparr>success = False, data = None, error = Some (str_of e), raw_response = None\<rparr>"

text \<open>The operations a provider's client defines.\<close>

fun provides :: "PaymentProviderType \<Rightarrow> operation \<Rightarrow> bool" where
  "provides PADDLE (IssueInvoice i) = False"
| "provides PADDLE (DraftInvoice d e c n a cu de) = False"
| "provides PADDLE GetPaymentDowntimes = False"
| "provides p op = True"

text \<open>Every request is answered with status 200 and a body that is not JSON.\<close>

definition garbled_net :: network where
  "garbled_net n req =
     Response \<lparr>status_code = 200, text_of = ''<html>'', json_of = None\<rparr>"

text \<open>
  A Razorpay subscription before its first charge: \<open>current_end\<close> is present and null.
\<close>

definition pending_subscription :: pyval where
  "pending_subscription =
     PDict [(''id'', PStr ''sub_1''), (''status'', PStr ''created''),
            (''created_at'', PInt 1704067200), (''current_end'', PNone)]"

definition pending_net :: network where
  "pending_net n req =
     Response \<lparr>status_code = 200, text_of = ''{}'', json_of = Some pending_subscription\<rparr>"

section \<open>Properties\<close>

declare make_request_loop.simps [simp del]

subsection \<open>The retry loop\<close>

lemma sent_count_simps [simp]:
  "sent_count (tr @ [Sent r]) = Suc (sent_count tr)"
  "sent_count (tr @ [Slept t]) = sent_count tr"
  "sent_count (tr @ Sent r # es) = Suc (sent_count (tr @ es))"
  "sent_count (tr @ Slept t # es) = sent_count (tr @ es)"
  by (simp_all add: sent_count_def)

lemma loop_success:
  assumes "\<forall>i<d. attempt_failed (net (sent_count tr + i) (request_of self meth url json params))"
    and "net (sent_count tr + d) (request_of self meth url json params) = Response resp"
    and "success_status (status_code resp)"
    and "int (n + d) < retries"
  shows "make_request_loop net self meth url json params retries bf (int n) tr =
           (case json_of resp of None \<Rightarrow> Inl JSONDecodeError | Some v \<Rightarrow> Inr v,
            tr @ concat (map (\<lambda>i. Sent (request_of self meth url json params)
                                   # sleep_after bf (n + i + 1)
                                       (net (sent_count tr + i) (request_of self meth url json params)))
                           [0..<d])
               @ [Sent (request_of self meth url json params)])"
  using assms
proof (induction d arbitrary: n tr)
  case 0
  then show ?case
    by (subst make_request_loop.simps)
       (simp add: success_status_def Let_def split: option.splits)
next
  case (Suc d)
  let ?req = "request_of self meth url json params"
  let ?tr1 = "tr @ [Sent ?req]"
  have f0: "attempt_failed (net (sent_count tr) ?req)"
    using Suc.prems(1) by (metis add.right_neutral zero_less_Suc)
  have lt: "int n + 1 < retries" "int n < retries" using Suc.prems(4) by simp_all
  show ?case
  proof (cases "net (sent_count tr) ?req")
    case (Response r)
    with f0 have ns: "\<not> success_status (status_code r)" by simp
    have step: "make_request_loop net self meth url json params retries bf (int n) tr =
                make_request_loop net self meth url json params retries bf (int (Suc n)) ?tr1"
      using Response ns lt
      by (subst make_request_loop.simps)
         (simp add: success_status_def Let_def add.commute)
    have ih: "make_request_loop net self meth url json params retries bf (int (Suc n)) ?tr1 =
           (case json_of resp of None \<Rightarrow> Inl JSONDecodeError | Some v \<Rightarrow> Inr v,
            ?tr1 @ concat (map (\<lambda>i. Sent ?req # sleep_after bf (Suc n + i + 1)
                                       (net (sent_count ?tr1 + i) ?req)) [0..<d])
               @ [Sent ?req])"
      using Suc.prems by (intro Suc.IH) auto
    show ?thesis
      unfolding step ih using Response
      by (simp add: upt_conv_Cons map_Suc_upt [symmetric] o_def del: upt_Suc)
  next
    case (RequestError exc)
    let ?tr2 = "?tr1 @ [Slept (bf * 2 ^ n)]"
    have step: "make_request_loop net self meth url json params retries bf (int n) tr =
                make_request_loop net self meth url json params retries bf (int (Suc n)) ?tr2"
      using RequestError lt
      by (subst make_request_loop.simps)
         (simp add: Let_def add.commute)
    have ih: "make_request_loop net self meth url json params retries bf (int (Suc n)) ?tr2 =
           (case json_of resp of None \<Rightarrow> Inl JSONDecodeError | Some v \<Rightarrow> Inr v,
            ?tr2 @ concat (map (\<lambda>i. Sent ?req # sleep_after bf (Suc n + i + 1)
                                       (net (sent_count ?tr2 + i) ?req)) [0..<d])
               @ [Sent ?req])"
      using Suc.prems by (intro Suc.IH) auto
    show ?thesis
      unfolding step ih using RequestError
      by (simp add: upt_conv_Cons map_Suc_upt [symmetric] o_def del: upt_Suc)
  next
    case (OtherException x)
    with f0 show ?thesis by simp
  qed
qed

lemma loop_exhausted:
  assumes "\<forall>i<Suc d. attempt_failed (net (sent_count tr + i) (request_of self meth url json params))"
    and "retries = int (n + Suc d)"
  shows "\<exists>tr'. make_request_loop net self meth url json params retries bf (int n) tr =
           (Inl (APIErr (exhausted_error
                   (net (sent_count tr + d) (request_of self meth url json params)))), tr') \<and>
           sent_count tr' = sent_count tr + Suc d \<and>
           (\<forall>e \<in> set tr'. is_Sent e \<longrightarrow> e \<in> set tr \<or> e = Sent (request_of self meth url json params))"
  using assms
proof (induction d arbitrary: n tr)
  case 0
  let ?req = "request_of self meth url json params"
  have f0: "attempt_failed (net (sent_count tr) ?req)"
    using "0.prems"(1) by (metis add.right_neutral zero_less_Suc)
  show ?case
  proof (cases "net (sent_count tr) ?req")
    case (Response r)
    with f0 have ns: "\<not> success_status (status_code r)" by simp
    show ?thesis using Response ns "0.prems"(2)
      by (subst make_request_loop.simps) (simp add: success_status_def Let_def)
  next
    case (RequestError exc)
    show ?thesis using RequestError "0.prems"(2)
      by (subst make_request_loop.simps) (simp add: Let_def)
  next
    case (OtherException x)
    with f0 show ?thesis by simp
  qed
next
  case (Suc d)
  let ?req = "request_of self meth url json params"
  let ?tr1 = "tr @ [Sent ?req]"
  have f0: "attempt_failed (net (sent_count tr) ?req)"
    using Suc.prems(1) by (metis add.right_neutral zero_less_Suc)
  have fs: "\<And>tr2. sent_count tr2 = Suc (sent_count tr) \<Longrightarrow>
              \<forall>i<Suc d. attempt_failed (net (sent_count tr2 + i) ?req)"
    using Suc.prems(1) by auto
  have r: "retries = int (Suc n + Suc d)" using Suc.prems(2) by simp
  have lt: "int n + 1 < retries" "int n < retries" using Suc.prems(2) by simp_all
  show ?case
  proof (cases "net (sent_count tr) ?req")
    case (Response resp)
    with f0 have ns: "\<not> success_status (status_code resp)" by simp
    have step: "make_request_loop net self meth url json params retries bf (int n) tr =
                make_request_loop net self meth url json params retries bf (int (Suc n)) ?tr1"
      using Response ns lt
      by (subst make_request_loop.simps) (simp add: success_status_def Let_def add.commute)
    from Suc.IH [OF fs r, of ?tr1] obtain tr' where
      "make_request_loop net self meth url json params retries bf (int (Suc n)) ?tr1 =
         (Inl (APIErr (exhausted_error (net (sent_count ?tr1 + d) ?req))), tr')"
      "sent_count tr' = sent_count ?tr1 + Suc d"
      "\<forall>e \<in> set tr'. is_Sent e \<longrightarrow> e \<in> set ?tr1 \<or> e = Sent ?req"
      by auto
    then show ?thesis unfolding step by auto
  next
    case (RequestError exc)
    let ?tr2 = "?tr1 @ [Slept (bf * 2 ^ n)]"
    have step: "make_request_loop net self meth url json params retries bf (int n) tr =
                make_request_loop net self meth url json params retries bf (int (Suc n)) ?tr2"
      using RequestError lt
      by (subst make_request_loop.simps) (simp add: Let_def add.commute)
    from Suc.IH [OF fs r, of ?tr2] obtain tr' where
      "make_request_loop net self meth url json params retries bf (int (Suc n)) ?tr2 =
         (Inl (APIErr (exhausted_error (net (sent_count ?tr2 + d) ?req))), tr')"
      "sent_count tr' = sent_count ?tr2 + Suc d"
      "\<forall>e \<in> set tr'. is_Sent e \<longrightarrow> e \<in> set ?tr2 \<or> e = Sent ?req"
      by auto
    then show ?thesis unfolding step by auto
  next
    case (OtherException x)
    with f0 show ?thesis by simp
  qed
qed

text \<open>
  Claim C2.  When \<open>_make_request\<close> succeeds on attempt \<open>k\<close> with \<open>1 \<le> k \<le> retries\<close>, that
  is, the attempts before \<open>k\<close> failed and attempt \<open>k\<close> was answered with a status of the
  success set, the events of the call are exactly: for each earlier attempt \<open>i\<close> the request,
  followed by one sleep of \<open>backoff_factor * 2 ^ (i - 1)\<close> seconds when attempt \<open>i\<close> was a
  transport-level failure and by no sleep when it was an HTTP-status failure; then the request
  of attempt \<open>k\<close>.
\<close>

theorem backoff_only_after_transport_failures:
  assumes "1 \<le> k" and "int k \<le> retries"
    and "\<forall>i. 1 \<le> i \<and> i < k \<longrightarrow>
           attempt_failed (net (sent_count tr + (i - 1))
             (request_of self meth (base_url self @ endpoint) json params))"
    and "net (sent_count tr + (k - 1))
           (request_of self meth (base_url self @ endpoint) json params) = Response resp"
    and "success_status (status_code resp)"
  shows "make_request net self meth endpoint json params retries bf tr =
           (case json_of resp of None \<Rightarrow> Inl JSONDecodeError | Some v \<Rightarrow> Inr v,
            tr @ concat (map (\<lambda>i. Sent (request_of self meth (base_url self @ endpoint) json params)
                                   # sleep_after bf i
                                       (net (sent_count tr + (i - 1))
                                          (request_of self meth (base_url self @ endpoint) json params)))
                           [1..<k])
               @ [Sent (request_of self meth (base_url self @ endpoint) json params)])"
proof -
  let ?req = "request_of self meth (base_url self @ endpoint) json params"
  obtain d where k: "k = Suc d" using assms(1) by (cases k) auto
  have a: "\<forall>i<d. attempt_failed (net (sent_count tr + i) ?req)"
    using assms(3) k by (metis Suc_less_eq diff_Suc_1 le_add1 plus_1_eq_Suc)
  have b: "net (sent_count tr + d) ?req = Response resp" using assms(4) k by simp
  have c: "int (0 + d) < retries" using assms(2) k by simp
  have m: "[1..<k] = map Suc [0..<d]" using k by (simp add: map_Suc_upt)
  show ?thesis
    unfolding make_request_def m
    using loop_success [where n = 0 and d = d and net = net and tr = tr and self = self
        and meth = meth and url = "base_url self @ endpoint" and json = json
        and params = params and resp = resp and retries = retries and bf = bf,
        OF a b assms(5) c]
    by (simp add: o_def)
qed

theorem backoff_only_after_transport_failures_witness:
  "make_request flaky_net demo_client ''GET'' ''/x'' None None 4 (3 / 2) [] =
     (Inr (PDict []),
      [Sent (request_of demo_client ''GET'' ''https://api.example/x'' None None), Slept (3 / 2),
       Sent (request_of demo_client ''GET'' ''https://api.example/x'' None None),
       Sent (request_of demo_client ''GET'' ''https://api.example/x'' None None), Slept 6,
       Sent (request_of demo_client ''GET'' ''https://api.example/x'' None None)])"
proof -
  let ?req = "request_of demo_client ''GET'' (base_url demo_client @ ''/x'') None None"
  have cases4: "\<And>i::nat. 1 \<le> i \<and> i < 4 \<Longrightarrow> i = 1 \<or> i = 2 \<or> i = 3" by arith
  have h1: "(1::nat) \<le> 4" and h2: "int 4 \<le> 4" by simp_all
  have h3: "\<forall>i. 1 \<le> i \<and> i < 4 \<longrightarrow> attempt_failed (flaky_net (sent_count [] + (i - 1)) ?req)"
    using cases4
    by (auto simp: flaky_net_def err_response_def success_status_def sent_count_def)
  have h4: "flaky_net (sent_count [] + (4 - 1)) ?req = Response ok_response"
    by (simp add: flaky_net_def sent_count_def)
  have h5: "success_status (status_code ok_response)"
    by (simp add: ok_response_def success_status_def)
  have b: "base_url demo_client = ''https://api.example''"
    by (simp add: demo_client_def BaseAPIClient_init_def)
  show ?thesis
    using backoff_only_after_transport_failures [where k = 4 and retries = 4 and net = flaky_net and tr = "[]"
        and self = demo_client and meth = "''GET''" and endpoint = "''/x''" and json = None
        and params = None and resp = ok_response and bf = "3 / 2", OF h1 h2 h3 h4 h5]
    by (simp add: b flaky_net_def sent_count_def ok_response_def upt_conv_Cons)
qed

text \<open>
  Claim C6.  When all of the \<open>retries \<ge> 1\<close> attempts fail, exactly \<open>retries\<close> requests are
  sent, and the \<open>APIError\<close> raised carries the status code and the response text of the last
  attempt when that attempt was an HTTP-status failure, and the exception message of the last
  attempt when it was a transport-level failure.
\<close>

theorem exhausted_retries_surface_last_failure:
  assumes "1 \<le> m" and "retries = int m"
    and "\<forall>i<m. attempt_failed (net (sent_count tr + i)
                   (request_of self meth (base_url self @ endpoint) json params))"
  shows "sent_count (snd (make_request net self meth endpoint json params retries bf tr))
           = sent_count tr + m \<and>
         (\<forall>resp. net (sent_count tr + (m - 1))
                    (request_of self meth (base_url self @ endpoint) json params) = Response resp \<longrightarrow>
            fst (make_request net self meth endpoint json params retries bf tr) =
              Inl (APIErr (APIError ''API call failed after retries''
                             (Some (status_code resp)) (Some (text_of resp))))) \<and>
         (\<forall>exc. net (sent_count tr + (m - 1))
                   (request_of self meth (base_url self @ endpoint) json params) = RequestError exc \<longrightarrow>
            fst (make_request net self meth endpoint json params retries bf tr) =
              Inl (APIErr (APIError (''Request error after retries: '' @ exc) None None)))"
proof -
  obtain d where m: "m = Suc d" using assms(1) by (cases m) auto
  have r: "retries = int (0 + Suc d)" using assms(2) m by simp
  from loop_exhausted [where n = 0 and d = d and net = net and tr = tr and self = self
        and meth = meth and url = "base_url self @ endpoint" and json = json
        and params = params and retries = retries and bf = bf,
        OF assms(3) [unfolded m] r]
  show ?thesis unfolding make_request_def m by auto
qed

theorem exhausted_retries_surface_last_failure_witness:
  "sent_count (snd (make_request down_net demo_client ''GET'' ''/x'' None None 3 (3 / 2) [])) = 3 \<and>
   fst (make_request down_net demo_client ''GET'' ''/x'' None None 3 (3 / 2) []) =
     Inl (APIErr (APIError ''API call failed after retries'' (Some 500) (Some ''down''))) \<and>
   sent_count (snd (make_request down_net demo_client ''GET'' ''/x'' None None 2 (3 / 2) [])) = 2 \<and>
   fst (make_request down_net demo_client ''GET'' ''/x'' None None 2 (3 / 2) []) =
     Inl (APIErr (APIError ''Request error after retries: refused'' None None))"
proof -
  let ?req = "request_of demo_client ''GET'' (base_url demo_client @ ''/x'') None None"
  have h1: "(1::nat) \<le> 3" and h2: "(3::int) = int 3" by simp_all
  have h3: "\<forall>i<3. attempt_failed (down_net (sent_count [] + i) ?req)"
    by (simp add: down_net_def err_response_def success_status_def)
  have l3: "down_net (sent_count [] + (3 - 1)) ?req = Response err_response"
    by (simp add: down_net_def sent_count_def)
  have g1: "(1::nat) \<le> 2" and g2: "(2::int) = int 2" by simp_all
  have g3: "\<forall>i<2. attempt_failed (down_net (sent_count [] + i) ?req)"
    by (simp add: down_net_def err_response_def success_status_def)
  have l2: "down_net (sent_count [] + (2 - 1)) ?req = RequestError ''refused''"
    by (simp add: down_net_def sent_count_def)
  show ?thesis
    using exhausted_retries_surface_last_failure [where m = 3 and retries = 3 and net = down_net
        and tr = "[]" and self = demo_client and meth = "''GET''" and endpoint = "''/x''"
        and json = None and params = None and bf = "3 / 2", OF h1 h2 h3] l3
      exhausted_retries_surface_last_failure [where m = 2 and retries = 2 and net = down_net
        and tr = "[]" and self = demo_client and meth = "''GET''" and endpoint = "''/x''"
        and json = None and params = None and bf = "3 / 2", OF g1 g2 g3] l2
    by (simp add: err_response_def sent_count_def)
qed

text \<open>
  Claim C7.  With \<open>retries = 0\<close> the loop body never runs: \<open>_make_request\<close> returns
  \<open>None\<close>, raises nothing, and sends no request (the events are unchanged).
\<close>

theorem make_request_zero_retries_returns_None:
  "make_request net self meth endpoint json params 0 bf tr = (Inr PNone, tr)"
  by (simp add: make_request_def make_request_loop.simps)

subsection \<open>Headers\<close>

text \<open>
  Claim C8.  What holds on every interpreter: the headers are a function of the secret and
  the authentication method, \<open>ApiKey\<close> with the secret \<open>abc\<close> gives \<open>X-Api-Key: abc\<close> and
  no \<open>Authorization\<close>, and \<open>Content-Type: application/json\<close> is always there.  What does
  not: \<open>Bearer\<close> with the secret \<open>abc\<close> gives \<open>Authorization: Bearer abc\<close> on Python 3.10,
  and \<open>Authorization: AuthMethod.BEARER abc\<close> from Python 3.11 on (\<open>Basic\<close> alike).
\<close>

theorem build_headers_by_auth_method:
  "map_of (build_headers Python_3_11_up ''abc'' BEARER) ''Authorization'' =
     Some ''AuthMethod.BEARER abc'' \<and>
   map_of (build_headers Python_3_11_up ''abc'' BASIC) ''Authorization'' =
     Some ''AuthMethod.BASIC abc'' \<and>
   map_of (build_headers Python_3_10 ''abc'' BEARER) ''Authorization'' = Some ''Bearer abc'' \<and>
   (\<forall>py. map_of (build_headers py ''abc'' API_KEY) ''X-Api-Key'' = Some ''abc'' \<and>
         map_of (build_headers py ''abc'' API_KEY) ''Authorization'' = None) \<and>
   (\<forall>py secret m.
      map_of (build_headers py secret m) ''Content-Type'' = Some ''application/json'') \<and>
   (\<forall>py url secret m tmo.
      headers (BaseAPIClient_init py url secret m tmo) = build_headers py secret m)"
  by (simp add: build_headers_def BaseAPIClient_init_def Let_def)

subsection \<open>Billing cycles\<close>

lemma lower_table_keys:
  "lower ''daily'' = ''daily''" "lower ''weekly'' = ''weekly''"
  "lower ''monthly'' = ''monthly''" "lower ''yearly'' = ''yearly''"
  by (simp_all add: lower_def lower_char_def)

lemma paddle_cycle_table:
  "paddle_map_billing_cycle ''daily'' = ''day''"
  "paddle_map_billing_cycle ''weekly'' = ''week''"
  "paddle_map_billing_cycle ''monthly'' = ''month''"
  "paddle_map_billing_cycle ''yearly'' = ''year''"
  by (simp_all add: paddle_map_billing_cycle_def lower_table_keys)

lemma razorpay_cycle_table:
  "razorpay_map_billing_cycle ''daily'' = ''daily''"
  "razorpay_map_billing_cycle ''weekly'' = ''weekly''"
  "razorpay_map_billing_cycle ''monthly'' = ''monthly''"
  "razorpay_map_billing_cycle ''yearly'' = ''yearly''"
  by (simp_all add: razorpay_map_billing_cycle_def lower_table_keys)

lemma unrecognized_cycle_is_monthly:
  "lower s \<notin> set cycle_table_keys \<Longrightarrow>
     paddle_map_billing_cycle s = ''month'' \<and> razorpay_map_billing_cycle s = ''monthly''"
  by (simp add: cycle_table_keys_def paddle_map_billing_cycle_def
      razorpay_map_billing_cycle_def)

text \<open>
  Claim C4.  The canonical billing cycles of the repository are the members of
  \<open>BillingCycle\<close>, whose values are \<open>day\<close>, \<open>week\<close>, \<open>month\<close> and \<open>year\<close>.  None of them
  is a key of an adapter's table (the keys are \<open>daily\<close>, \<open>weekly\<close>, \<open>monthly\<close>, \<open>yearly\<close>),
  so \<open>_map_billing_cycle\<close> sends all four to the provider's monthly value: after the
  mapping the four can no longer be told apart, and no way back gives the original.
\<close>

theorem billing_cycle_enum_values_collapse:
  "paddle_map_billing_cycle (BillingCycle_value DAILY) = ''month'' \<and>
   paddle_map_billing_cycle (BillingCycle_value WEEKLY) = ''month'' \<and>
   paddle_map_billing_cycle (BillingCycle_value MONTHLY) = ''month'' \<and>
   paddle_map_billing_cycle (BillingCycle_value YEARLY) = ''month'' \<and>
   razorpay_map_billing_cycle (BillingCycle_value DAILY) = ''monthly'' \<and>
   razorpay_map_billing_cycle (BillingCycle_value WEEKLY) = ''monthly'' \<and>
   razorpay_map_billing_cycle (BillingCycle_value MONTHLY) = ''monthly'' \<and>
   razorpay_map_billing_cycle (BillingCycle_value YEARLY) = ''monthly''"
  by (simp add: paddle_map_billing_cycle_def razorpay_map_billing_cycle_def lower_def
      lower_char_def)

subsection \<open>The adapters\<close>

lemma bindSE_Inr:
  "bindSE m f s = (Inr r, s') \<Longrightarrow> \<exists>v s1. m s = (Inr v, s1) \<and> f v s1 = (Inr r, s')"
  by (auto simp: bindSE_def split: prod.splits sum.splits)

lemma pureSE_eq: "pureSE x s = (y, s') \<longleftrightarrow> x = y \<and> s' = s"
  by (auto simp: pureSE_def)

lemma bindE_Inr: "bindE m f = Inr r \<Longrightarrow> \<exists>v. m = Inr v \<and> f v = Inr r"
  by (auto simp: bindE_def split: sum.splits)

lemma new_APIResponse_success:
  "new_APIResponse True (Some d) None raw = Inr r \<Longrightarrow>
     success r \<and> data r = Some d \<and> error r = None \<and> opt_dict (raw_response r) = raw"
  by (auto simp: new_APIResponse_def opt_dict_def split: pyval.splits)

lemma new_APIResponse_failure:
  "new_APIResponse False None (Some m) PNone =
     Inr \<lparr>success = False, data = None, error = Some m, raw_response = None\<rparr>"
  by (simp add: new_APIResponse_def)

lemma except_APIError_Inr:
  "except_APIError str_of body s = (Inr r, s') \<Longrightarrow>
     body s = (Inr r, s') \<or>
     (\<exists>e. body s = (Inl (APIErr e), s') \<and>
          r = \<lparr>success = False, data = None, error = Some (str_of e), raw_response = None\<rparr>)"
  by (auto simp: except_APIError_def new_APIResponse_failure split: prod.splits sum.splits exn.splits)

lemmas ops_defs =
  paddle_create_transaction_def paddle_create_plan_def paddle_get_transaction_invoice_def
  paddle_get_subscription_details_def paddle_end_subscription_def paddle_create_customer_def
  razorpay_create_customer_def razorpay_create_plan_def
  razorpay_get_transaction_invoice_def razorpay_issue_invoice_def razorpay_draft_invoice_def
  razorpay_get_subscription_details_def razorpay_end_subscription_def
  razorpay_get_payment_downtimes_def

lemma wf_failure [simp]:
  "well_formed \<lparr>success = False, data = None, error = Some m, raw_response = None\<rparr>"
  by (simp add: well_formed_def)

lemma wf_success:
  "new_APIResponse True (Some d) None raw = Inr r \<Longrightarrow> well_formed r"
  by (drule new_APIResponse_success) (simp add: well_formed_def)

lemma razorpay_create_customer_wf:
  "razorpay_create_customer str_of mr u s = (Inr r, s') \<Longrightarrow> well_formed r"
  unfolding razorpay_create_customer_def Let_def
  by (auto dest!: except_APIError_Inr bindSE_Inr bindE_Inr wf_success simp: pureSE_eq)

lemma razorpay_create_transaction_wf:
  "razorpay_create_transaction str_of mr p sid u s = (Inr r, s') \<Longrightarrow> well_formed r"
  unfolding razorpay_create_transaction_def Let_def
  by (auto dest!: except_APIError_Inr bindSE_Inr bindE_Inr wf_success razorpay_create_customer_wf
      simp: pureSE_eq split: if_splits)

lemma recording_eq:
  "recording mr m ep j s = (r, s') \<longleftrightarrow>
     (\<exists>t. mr m ep j (fst s) = (r, t) \<and> s' = (t, snd s @ [r]))"
  by (auto simp: recording_def split: prod.splits)

lemma bindSE_cases:
  "bindSE m f s = (res, s') \<Longrightarrow>
     (\<exists>x. m s = (Inl x, s') \<and> res = Inl x) \<or> (\<exists>v s1. m s = (Inr v, s1) \<and> f v s1 = (res, s'))"
  by (auto simp: bindSE_def split: prod.splits sum.splits)

lemma except_APIError_cases:
  "except_APIError str_of body s = (res, s') \<Longrightarrow>
     (\<exists>e. body s = (Inl (APIErr e), s') \<and> res = Inr (api_failure str_of e)) \<or>
     (body s = (res, s') \<and> (\<forall>e. res \<noteq> Inl (APIErr e)))"
  by (auto simp: except_APIError_def new_APIResponse_failure api_failure_def
      split: prod.splits sum.splits exn.splits)

lemma razorpay_create_customer_api_error:
  assumes "razorpay_create_customer str_of (recording mr) u (s, rs0) = (res, (s', rs))"
  shows "(\<forall>e. Inl (APIErr e) \<in> set rs \<longrightarrow> Inl (APIErr e) \<in> set rs0 \<or> res = Inr (api_failure str_of e))
         \<and> (\<exists>r. rs = rs0 @ [r])"
  using assms unfolding razorpay_create_customer_def Let_def
  by (auto dest!: except_APIError_cases bindSE_cases simp: pureSE_eq recording_eq)


lemma api_failure_sel [simp]:
  "\<not> success (api_failure str_of e)" "raw_response (api_failure str_of e) = None"
  by (simp_all add: api_failure_def)

lemma razorpay_create_transaction_api_error:
  assumes "razorpay_create_transaction str_of (recording mr) p sid u (s, []) = (res, (s', rs))"
  shows "(\<forall>e. Inl (APIErr e) \<in> set rs \<longrightarrow> res = Inr (api_failure str_of e))"
  using assms unfolding razorpay_create_transaction_def Let_def
  by (auto dest!: except_APIError_cases bindSE_cases razorpay_create_customer_api_error
      simp: pureSE_eq recording_eq split: if_splits)

lemma razorpay_create_customer_raw:
  assumes "razorpay_create_customer str_of (recording mr) u (s, rs0) = (Inr r, (s', rs))"
  shows "(\<not> success r \<longrightarrow> raw_response r = None) \<and>
         (success r \<longrightarrow> (\<exists>v. rs = rs0 @ [Inr v] \<and> opt_dict (raw_response r) = v))"
  using assms unfolding razorpay_create_customer_def Let_def
  by (auto dest!: except_APIError_cases bindSE_cases bindE_Inr new_APIResponse_success
      simp: pureSE_eq recording_eq)

lemma razorpay_create_transaction_raw:
  assumes "razorpay_create_transaction str_of (recording mr) p sid u (s, []) = (Inr r, (s', rs))"
  shows "(\<not> success r \<longrightarrow> raw_response r = None) \<and>
         (success r \<longrightarrow> (\<exists>v. rs \<noteq> [] \<and> last rs = Inr v \<and> opt_dict (raw_response r) = v))"
  using assms unfolding razorpay_create_transaction_def Let_def
  by (auto dest!: except_APIError_cases bindSE_cases bindE_Inr new_APIResponse_success
        razorpay_create_customer_raw
      simp: pureSE_eq recording_eq split: if_splits)

lemma fromtimestamp_zero: "fromtimestamp (PInt 0) = Inr (PDatetime 0)"
  by (simp add: fromtimestamp_def datetime_from_timet_and_us_def)

lemmas run_defs =
  paddle_create_customer_def razorpay_create_customer_def except_APIError_def bindSE_def
  bindE_def pureSE_def invoke_def recording_def make_request_def make_request_loop.simps
  Let_def new_APIResponse_def sent_count_def py_get_def py_get2_def demo_user_def

lemma run_down:
  "call err_message (recording (invoke down_net demo_client)) PADDLE (CreateCustomer demo_user)
     ([], []) =
   (Inr \<lparr>success = False, data = None, error = Some ''API call failed after retries'',
          raw_response = None\<rparr>,
    ([Sent (request_of demo_client ''POST'' ''https://api.example/customers''
              (Some (PDict [(''email'', PStr ''a@b.com''), (''name'', PStr ''A B'')])) None),
      Sent (request_of demo_client ''POST'' ''https://api.example/customers''
              (Some (PDict [(''email'', PStr ''a@b.com''), (''name'', PStr ''A B'')])) None),
      Slept 3,
      Sent (request_of demo_client ''POST'' ''https://api.example/customers''
              (Some (PDict [(''email'', PStr ''a@b.com''), (''name'', PStr ''A B'')])) None)],
     [Inl (APIErr (APIError ''API call failed after retries'' (Some 500) (Some ''down'')))]))"
  by (simp add: run_defs down_net_def err_response_def demo_client_def BaseAPIClient_init_def)

lemma run_accept:
  "call err_message (recording (invoke accepting_net demo_client)) RAZORPAY
     (CreateCustomer demo_user) ([], []) =
   (Inr \<lparr>success = True, data = Some [(''customer_id'', PStr ''cust_1'')], error = None,
          raw_response = Some [(''id'', PStr ''cust_1'')]\<rparr>,
    ([Sent (request_of demo_client ''POST'' ''https://api.example/customers''
              (Some (PDict [(''name'', PStr ''A B''), (''email'', PStr ''a@b.com''),
                            (''fail_existing'', PInt 0)])) None)],
     [Inr (PDict [(''id'', PStr ''cust_1'')])]))"
  by (simp add: run_defs accepting_net_def demo_client_def BaseAPIClient_init_def)

lemma run_plan:
  "call err_message (recording (invoke paddle_net demo_client)) PADDLE (CreatePlan demo_plan)
     ([], []) =
   (Inr \<lparr>success = True,
          data = Some [(''product_id'', PStr ''obj_1''), (''price_id'', PStr ''obj_1'')],
          error = None,
          raw_response = Some
            [(''product'', PDict [(''data'', PDict [(''id'', PStr ''obj_1'')])]),
             (''price'', PDict [(''data'', PDict [(''id'', PStr ''obj_1'')])])]\<rparr>,
    ([Sent (request_of demo_client ''POST'' ''https://api.example/products''
              (Some (PDict [(''name'', PStr ''Pro''), (''tax_category'', PStr ''digital-goods''),
                            (''description'', PStr ''Pro'')])) None),
      Sent (request_of demo_client ''POST'' ''https://api.example/prices''
              (Some (PDict
                 [(''name'', PStr ''Pro''), (''product_id'', PStr ''obj_1''),
                  (''description'', PStr ''Pro''),
                  (''unit_price'', PDict [(''amount'', PInt 1000),
                                          (''currency_code'', PStr ''USD'')]),
                  (''billing_cycle'', PDict [(''interval'', PStr ''year''),
                                             (''frequency'', PInt 1)]),
                  (''tax_mode'', PStr ''account_setting''),
                  (''quantity'', PDict [(''minimum'', PInt 1), (''maximum'', PInt 1)])]))
              None)],
     [Inr (PDict [(''data'', PDict [(''id'', PStr ''obj_1'')])]),
      Inr (PDict [(''data'', PDict [(''id'', PStr ''obj_1'')])])]))"
  by (simp add: run_defs paddle_create_plan_def py_getitem_def str_or_def demo_plan_def
      paddle_cycle_table paddle_net_def demo_client_def BaseAPIClient_init_def)

text \<open>
  Recording changes neither what an operation returns nor the state it leaves.
\<close>

lemma except_recording:
  assumes "\<And>s l. fst (body' (s, l)) = fst (body s) \<and> fst (snd (body' (s, l))) = snd (body s)"
  shows "fst (except_APIError str_of body' (s, l)) = fst (except_APIError str_of body s) \<and>
         fst (snd (except_APIError str_of body' (s, l))) = snd (except_APIError str_of body s)"
  using assms [of s l]
  by (cases "body' (s, l)"; cases "body s")
     (auto simp: except_APIError_def split: sum.splits exn.splits)

lemma bind_recording:
  assumes "\<And>s l. fst (m' (s, l)) = fst (m s) \<and> fst (snd (m' (s, l))) = snd (m s)"
    and "\<And>v s l. fst (f' v (s, l)) = fst (f v s) \<and> fst (snd (f' v (s, l))) = snd (f v s)"
  shows "fst (bindSE m' f' (s, l)) = fst (bindSE m f s) \<and>
         fst (snd (bindSE m' f' (s, l))) = snd (bindSE m f s)"
  using assms(1) [of s l] assms(2)
  by (cases "m' (s, l)"; cases "m s")
     (auto simp: bindSE_def split: sum.splits)

lemma mr_recording:
  "fst (recording mr m ep j (s, l)) = fst (mr m ep j s) \<and>
   fst (snd (recording mr m ep j (s, l))) = snd (mr m ep j s)"
  by (simp add: recording_def split: prod.splits)

lemma pure_recording:
  "fst (pureSE x (s, l)) = fst (pureSE x s) \<and> fst (snd (pureSE x (s, l))) = snd (pureSE x s)"
  by (simp add: pureSE_def)

lemma if_recording:
  assumes "fst (a' (s, l)) = fst (a s) \<and> fst (snd (a' (s, l))) = snd (a s)"
    and "fst (b' (s, l)) = fst (b s) \<and> fst (snd (b' (s, l))) = snd (b s)"
  shows "fst ((if c then a' else b') (s, l)) = fst ((if c then a else b) s) \<and>
         fst (snd ((if c then a' else b') (s, l))) = snd ((if c then a else b) s)"
  using assms by simp

lemma recording_transparent:
  "fst (call str_of (recording mr) provider op (s, l)) = fst (call str_of mr provider op s) \<and>
   fst (snd (call str_of (recording mr) provider op (s, l))) = snd (call str_of mr provider op s)"
  by (cases provider; cases op; simp only: call.simps ops_defs razorpay_create_transaction_def Let_def;
      intro except_recording bind_recording if_recording mr_recording pure_recording)

lemma invoke_all_failed:
  assumes "\<forall>n req. attempt_failed (net n req)"
  shows "\<exists>e tr'. invoke net self m ep j tr = (Inl (APIErr e), tr')"
proof -
  have a: "\<forall>i<Suc 2. attempt_failed (net (sent_count tr + i)
             (request_of self m (base_url self @ ep) j None))"
    using assms by simp
  have r: "(3::int) = int (0 + Suc 2)" by simp
  from loop_exhausted [where n = 0 and d = 2 and net = net and tr = tr and self = self
      and meth = m and url = "base_url self @ ep" and json = j and params = None
      and retries = 3 and bf = "3 / 2", OF a r]
  show ?thesis unfolding invoke_def make_request_def by auto
qed

lemma failing_layer_gives_failure:
  assumes "\<And>m ep j s. \<exists>e s'. mr m ep j s = (Inl (APIErr e), s')"
    and "provides provider op"
  shows "\<exists>e s'. call str_of mr provider op s = (Inr (api_failure str_of e), s')"
proof -
  have ex: "\<And>m ep j f. \<exists>e s'. except_APIError str_of (bindSE (mr m ep j) f) s
              = (Inr (api_failure str_of e), s')"
  proof -
    fix m ep j and f :: "pyval \<Rightarrow> (APIResponse, 'a) prog"
    from assms(1) obtain e s' where "mr m ep j s = (Inl (APIErr e), s')" by blast
    then have "except_APIError str_of (bindSE (mr m ep j) f) s = (Inr (api_failure str_of e), s')"
      by (simp add: except_APIError_def bindSE_def new_APIResponse_failure api_failure_def)
    then show "\<exists>e s'. except_APIError str_of (bindSE (mr m ep j) f) s
              = (Inr (api_failure str_of e), s')" by blast
  qed
  have cust: "\<exists>e s'. razorpay_create_customer str_of mr u s = (Inr (api_failure str_of e), s')" for u
    unfolding razorpay_create_customer_def Let_def by (rule ex)
  have tx: "\<exists>e s'. razorpay_create_transaction str_of mr p sid u s = (Inr (api_failure str_of e), s')"
    for p sid u
  proof -
    from cust obtain e s' where
      "razorpay_create_customer str_of mr u s = (Inr (api_failure str_of e), s')" by blast
    then have "razorpay_create_transaction str_of mr p sid u s = (Inr (api_failure str_of e), s')"
      by (simp add: razorpay_create_transaction_def except_APIError_def bindSE_def pureSE_def)
    then show ?thesis by blast
  qed
  show ?thesis
  proof (cases provider)
    case PADDLE
    with assms(2) show ?thesis
      by (cases op) (simp_all add: ops_defs Let_def ex)
  next
    case RAZORPAY
    then show ?thesis
      by (cases op)
         (simp_all add: razorpay_create_plan_def razorpay_get_transaction_invoice_def
            razorpay_issue_invoice_def razorpay_draft_invoice_def
            razorpay_get_subscription_details_def razorpay_end_subscription_def
            razorpay_get_payment_downtimes_def Let_def ex tx cust)
  qed
qed

lemma expected_failures_never_raise:
  assumes "\<forall>n req. attempt_failed (net n req)" and "provides provider op"
  shows "\<exists>e tr'. call str_of (invoke net self) provider op tr = (Inr (api_failure str_of e), tr')"
  using failing_layer_gives_failure [OF invoke_all_failed [OF assms(1)] assms(2)] .

lemma recorded_api_error_gives_failure:
  assumes "call str_of (recording mr) provider op (s, []) = (res, (s', rs))"
  shows "(\<forall>e. Inl (APIErr e) \<in> set rs \<longrightarrow>
            res = Inr \<lparr>success = False, data = None, error = Some (str_of e),
                        raw_response = None\<rparr>) \<and>
         (\<forall>e. res \<noteq> Inl (APIErr e))"
proof -
  have a: "\<forall>e. Inl (APIErr e) \<in> set rs \<longrightarrow> res = Inr (api_failure str_of e)"
  proof (cases provider)
    case PADDLE
    with assms show ?thesis
      by (cases op)
         (auto simp: ops_defs Let_def pureSE_eq recording_eq
            dest!: except_APIError_cases bindSE_cases)
  next
    case RAZORPAY
    with assms show ?thesis
      by (cases op)
         (auto simp: ops_defs Let_def pureSE_eq recording_eq
            dest!: except_APIError_cases bindSE_cases razorpay_create_transaction_api_error)
  qed
  have b: "\<forall>e. res \<noteq> Inl (APIErr e)"
  proof (cases provider)
    case PADDLE
    with assms show ?thesis
      by (cases op)
         (auto simp: ops_defs Let_def pureSE_eq
            dest!: except_APIError_cases)
  next
    case RAZORPAY
    with assms show ?thesis
      by (cases op)
         (auto simp: ops_defs razorpay_create_transaction_def Let_def pureSE_eq
            dest!: except_APIError_cases)
  qed
  from a b show ?thesis by (simp add: api_failure_def)
qed

text \<open>
  Claim C1 fails as stated: a body that does not decode is one of the expected failure
  modes, and \<open>create_customer\<close> lets the \<open>JSONDecodeError\<close> of \<open>response.json()\<close> through
  to its caller.
\<close>

theorem decode_error_escapes_adapter:
  "call err_message (invoke garbled_net demo_client) PADDLE (CreateCustomer demo_user) [] =
   (Inl JSONDecodeError,
    [Sent (request_of demo_client ''POST'' ''https://api.example/customers''
             (Some (PDict [(''email'', PStr ''a@b.com''), (''name'', PStr ''A B'')])) None)])"
  by (simp add: run_defs garbled_net_def demo_client_def BaseAPIClient_init_def)

text \<open>
  Claim C1, amended.  Run any operation of either adapter over a request layer whose calls
  are recorded: if some call of the request layer raised an \<open>APIError\<close> \<open>e\<close>, the operation
  does not raise but returns the response with \<open>success = False\<close>, no data and \<open>error\<close> set
  to \<open>str(e)\<close>, and no operation ever lets an \<open>APIError\<close> through.  Hence, over
  \<open>_make_request\<close>, an operation the client defines never raises when every attempt ends
  in an HTTP-status or a transport-level failure: it returns such a response.
\<close>

theorem api_error_becomes_failure_response:
  "(\<forall>s res s' rs.
      call str_of (recording mr) provider op (s, []) = (res, (s', rs)) \<longrightarrow>
        (\<forall>e. Inl (APIErr e) \<in> set rs \<longrightarrow>
           res = Inr \<lparr>success = False, data = None, error = Some (str_of e),
                       raw_response = None\<rparr>) \<and>
        (\<forall>e. res \<noteq> Inl (APIErr e))) \<and>
   ((\<forall>n req. attempt_failed (net n req)) \<and> provides provider op \<longrightarrow>
      (\<exists>e tr'. call str_of (invoke net self) provider op tr =
         (Inr \<lparr>success = False, data = None, error = Some (str_of e),
                raw_response = None\<rparr>, tr')))"
proof (rule conjI)
  show "\<forall>s res s' rs.
      call str_of (recording mr) provider op (s, []) = (res, (s', rs)) \<longrightarrow>
        (\<forall>e. Inl (APIErr e) \<in> set rs \<longrightarrow>
           res = Inr \<lparr>success = False, data = None, error = Some (str_of e),
                       raw_response = None\<rparr>) \<and>
        (\<forall>e. res \<noteq> Inl (APIErr e))"
    by (intro allI impI) (rule recorded_api_error_gives_failure)
next
  show "(\<forall>n req. attempt_failed (net n req)) \<and> provides provider op \<longrightarrow>
      (\<exists>e tr'. call str_of (invoke net self) provider op tr =
         (Inr \<lparr>success = False, data = None, error = Some (str_of e),
                raw_response = None\<rparr>, tr'))"
  proof
    assume "(\<forall>n req. attempt_failed (net n req)) \<and> provides provider op"
    then have "\<exists>e tr'. call str_of (invoke net self) provider op tr =
                 (Inr (api_failure str_of e), tr')"
      using expected_failures_never_raise by blast
    then show "\<exists>e tr'. call str_of (invoke net self) provider op tr =
         (Inr \<lparr>success = False, data = None, error = Some (str_of e),
                raw_response = None\<rparr>, tr')"
      by (simp add: api_failure_def)
  qed
qed

theorem api_error_becomes_failure_response_witness:
  "fst (call err_message (recording (invoke down_net demo_client)) PADDLE
          (CreateCustomer demo_user) ([], [])) =
     Inr \<lparr>success = False, data = None, error = Some ''API call failed after retries'',
            raw_response = None\<rparr> \<and>
   (\<exists>e tr'. call err_message (invoke down_net demo_client) RAZORPAY
               (CreateTransaction demo_plan ''sub_1'' demo_user) [] =
      (Inr \<lparr>success = False, data = None, error = Some (err_message e),
             raw_response = None\<rparr>, tr'))"
proof -
  let ?run = "call err_message (recording (invoke down_net demo_client)) PADDLE
                (CreateCustomer demo_user) ([], [])"
  let ?e = "APIError ''API call failed after retries'' (Some 500) (Some ''down'')"
  have run: "?run = (fst ?run, (fst (snd ?run), snd (snd ?run)))" by simp
  have raised: "Inl (APIErr ?e) \<in> set (snd (snd ?run))" unfolding run_down by simp
  have "fst ?run = Inr \<lparr>success = False, data = None, error = Some (err_message ?e),
                           raw_response = None\<rparr>"
    using api_error_becomes_failure_response [where str_of = err_message
        and mr = "invoke down_net demo_client" and provider = PADDLE
        and op = "CreateCustomer demo_user"] run raised
    by blast
  then have first: "fst ?run = Inr \<lparr>success = False, data = None,
      error = Some ''API call failed after retries'', raw_response = None\<rparr>"
    by simp
  have failing: "\<forall>n req. attempt_failed (down_net n req)"
    by (simp add: down_net_def err_response_def success_status_def)
  have defined: "provides RAZORPAY (CreateTransaction demo_plan ''sub_1'' demo_user)"
    by simp
  have second: "\<exists>e tr'. call err_message (invoke down_net demo_client) RAZORPAY
               (CreateTransaction demo_plan ''sub_1'' demo_user) [] =
      (Inr \<lparr>success = False, data = None, error = Some (err_message e),
             raw_response = None\<rparr>, tr')"
    using api_error_becomes_failure_response [where str_of = err_message
        and mr = "invoke down_net demo_client" and provider = RAZORPAY
        and op = "CreateTransaction demo_plan ''sub_1'' demo_user" and net = down_net
        and self = demo_client and tr = "[]"] failing defined
    by blast
  from first second show ?thesis by blast
qed

text \<open>
  Claim C3.  In every response an operation of an adapter returns, \<open>success\<close> is false if
  and only if \<open>error\<close> is populated and \<open>data\<close> is absent, and \<open>success\<close> is true if and only
  if \<open>data\<close> is present and \<open>error\<close> is absent.
\<close>

theorem response_success_iff_data_and_no_error:
  assumes "call str_of mr provider op s = (Inr r, s')"
  shows "(\<not> success r \<longleftrightarrow> error r \<noteq> None \<and> data r = None) \<and>
         (success r \<longleftrightarrow> data r \<noteq> None \<and> error r = None)"
proof -
  have "well_formed r"
  proof (cases provider)
    case PADDLE
    with assms show ?thesis
      by (cases op)
         (auto simp: ops_defs Let_def pureSE_eq
            dest!: except_APIError_Inr bindSE_Inr bindE_Inr wf_success)
  next
    case RAZORPAY
    with assms show ?thesis
      by (cases op)
         (auto simp: ops_defs Let_def pureSE_eq
            dest!: except_APIError_Inr bindSE_Inr bindE_Inr wf_success
                   razorpay_create_transaction_wf)
  qed
  then show ?thesis unfolding well_formed_def .
qed

theorem response_success_iff_data_and_no_error_witness:
  "success \<lparr>success = True, data = Some [(''customer_id'', PStr ''cust_1'')], error = None,
            raw_response = Some [(''id'', PStr ''cust_1'')]\<rparr> \<and>
   error \<lparr>success = False, data = None, error = Some ''API call failed after retries'',
          raw_response = None\<rparr> \<noteq> None"
  using response_success_iff_data_and_no_error [OF run_accept] response_success_iff_data_and_no_error [OF run_down] by simp

text \<open>
  Claim C5 fails as stated: all three attempts of \<open>create_customer\<close> reach the network and
  are answered with status 422 and the body \<open>{}\<close>, and the response returned to the caller
  has no \<open>raw_response\<close>.
\<close>

theorem raw_response_absent_after_rejected_calls:
  "call err_message (invoke rejecting_net demo_client) PADDLE (CreateCustomer demo_user) [] =
   (Inr \<lparr>success = False, data = None, error = Some ''API call failed after retries'',
          raw_response = None\<rparr>,
    [Sent (request_of demo_client ''POST'' ''https://api.example/customers''
              (Some (PDict [(''email'', PStr ''a@b.com''), (''name'', PStr ''A B'')])) None),
      Sent (request_of demo_client ''POST'' ''https://api.example/customers''
              (Some (PDict [(''email'', PStr ''a@b.com''), (''name'', PStr ''A B'')])) None),
      Sent (request_of demo_client ''POST'' ''https://api.example/customers''
              (Some (PDict [(''email'', PStr ''a@b.com''), (''name'', PStr ''A B'')])) None)])"
  by (simp add: run_defs rejecting_net_def demo_client_def BaseAPIClient_init_def)

text \<open>
  Claim C5, amended.  In every response an operation returns, \<open>raw_response\<close> is absent when
  \<open>success\<close> is false, whether or not a request reached the network; when \<open>success\<close> is
  true it is the decoded body the last call of the request layer returned (a body that
  decodes to \<open>None\<close> shows as absent), except for Paddle's \<open>create_plan\<close>, where it is the
  dict of the two decoded bodies under \<open>product\<close> and \<open>price\<close>.
\<close>

theorem raw_response_present_iff_success:
  assumes "call str_of (recording mr) provider op (s, []) = (Inr r, (s', rs))"
  shows "(\<not> success r \<longrightarrow> raw_response r = None) \<and>
         (success r \<longrightarrow>
            (if provider = PADDLE \<and> (\<exists>p. op = CreatePlan p)
             then \<exists>product price. rs = [Inr product, Inr price] \<and>
                    raw_response r = Some [(''product'', product), (''price'', price)]
             else \<exists>v. rs \<noteq> [] \<and> last rs = Inr v \<and> opt_dict (raw_response r) = v))"
proof (cases provider)
  case PADDLE
  with assms show ?thesis
    by (cases op)
       (auto simp: ops_defs Let_def pureSE_eq recording_eq opt_dict_def
          dest!: except_APIError_cases bindSE_cases bindE_Inr new_APIResponse_success
          split: option.splits)
next
  case RAZORPAY
  with assms show ?thesis
    by (cases op)
       (auto simp: ops_defs Let_def pureSE_eq recording_eq
          dest!: except_APIError_cases bindSE_cases bindE_Inr new_APIResponse_success
                 razorpay_create_transaction_raw)
qed

theorem raw_response_present_iff_success_witness:
  "opt_dict (raw_response \<lparr>success = True, data = Some [(''customer_id'', PStr ''cust_1'')],
                            error = None, raw_response = Some [(''id'', PStr ''cust_1'')]\<rparr>) =
     PDict [(''id'', PStr ''cust_1'')] \<and>
   raw_response \<lparr>success = False, data = None, error = Some ''API call failed after retries'',
                 raw_response = None\<rparr> = None \<and>
   raw_response (projr (fst (call err_message (recording (invoke paddle_net demo_client)) PADDLE
                               (CreatePlan demo_plan) ([], [])))) =
     Some [(''product'', PDict [(''data'', PDict [(''id'', PStr ''obj_1'')])]),
           (''price'', PDict [(''data'', PDict [(''id'', PStr ''obj_1'')])])]"
  using raw_response_present_iff_success [OF run_accept] raw_response_present_iff_success [OF run_down] raw_response_present_iff_success [OF run_plan] unfolding run_plan by simp

subsection \<open>Subscription timestamps\<close>

text \<open>
  Claim C9.  The two adapters do not give one representation: Paddle's normalization hands
  the ISO-8601 strings of the payload through unchanged, Razorpay's turns epoch seconds into
  a \<open>datetime\<close>.
\<close>

theorem paddle_timestamps_stay_strings:
  "paddle_normalize_subscription_details
     (PDict [(''id'', PStr ''sub_1''), (''created_at'', PStr ''2024-01-01T00:00:00Z''),
             (''next_billed_at'', PStr ''2024-02-01T00:00:00Z'')]) =
   Inr [(''id'', PStr ''sub_1''), (''status'', PNone),
        (''created_at'', PStr ''2024-01-01T00:00:00Z''),
        (''next_billing_date'', PStr ''2024-02-01T00:00:00Z''),
        (''plan_id'', PNone), (''customer_id'', PNone)] \<and>
   razorpay_normalize_subscription_details
     (PDict [(''id'', PStr ''sub_1''), (''created_at'', PInt 1704067200),
             (''current_end'', PInt 1706745600)]) =
   Inr [(''id'', PStr ''sub_1''), (''status'', PNone),
        (''created_at'', PDatetime 1704067200000000),
        (''next_billing_date'', PDatetime 1706745600000000),
        (''plan_id'', PNone), (''customer_id'', PNone)]"
  by (simp add: paddle_normalize_subscription_details_def
      razorpay_normalize_subscription_details_def bindE_def py_get_def
      fromtimestamp_def datetime_from_timet_and_us_def)

text \<open>
  Claim C10.  The default of \<open>.get("current_end", 0)\<close> covers a missing key only.  For a
  subscription before its first charge Razorpay sends \<open>current_end\<close> with the value null:
  \<open>datetime.fromtimestamp(None, ...)\<close> raises \<open>TypeError\<close>, nothing is populated, and
  \<open>get_subscription_details\<close> hands the exception to its caller.
\<close>

theorem razorpay_normalize_null_current_end_raises:
  "razorpay_normalize_subscription_details pending_subscription = Inl TypeError \<and>
   call err_message (invoke pending_net demo_client) RAZORPAY (GetSubscriptionDetails ''sub_1'')
     [] =
   (Inl TypeError,
    [Sent (request_of demo_client ''GET'' ''https://api.example/subscriptions/sub_1'' None
             None)])"
  by (simp add: run_defs razorpay_get_subscription_details_def
      razorpay_normalize_subscription_details_def pending_subscription_def pending_net_def
      fromtimestamp_def datetime_from_timet_and_us_def demo_client_def BaseAPIClient_init_def)

text \<open>
  When the two keys are missing, the defaults give the Unix epoch in both fields.
\<close>

lemma razorpay_normalize_missing_keys_give_epoch:
  assumes "map_of kvs ''created_at'' = None" and "map_of kvs ''current_end'' = None"
  shows "\<exists>d. razorpay_normalize_subscription_details (PDict kvs) = Inr d \<and>
           map_of d ''created_at'' = Some (PDatetime 0) \<and>
           map_of d ''next_billing_date'' = Some (PDatetime 0)"
  using assms
  by (simp add: razorpay_normalize_subscription_details_def bindE_def py_get_def
      fromtimestamp_zero)

end
